theory Spec2Isabelle
  imports Complex_Main
begin

section \<open>The checklist client (static/script.js)\<close>

text \<open>
  The script is an event-driven controller over a fixed page. The page is a record of
  the DOM state the script reads and writes; every handler is a function from page to
  page. An \<^verbatim>\<open>async\<close> handler is cut at its \<^verbatim>\<open>await fetch(...)\<close>: the part before it
  issues the request (recorded in the page's request log), the part after it takes the
  outcome of the request as an argument. Between the two parts other handlers may run,
  as in the browser.
\<close>

subsection \<open>Payloads\<close>

text \<open>The seven task flags, as they appear in the form and in every daily payload.\<close>

record checklist =
  gym :: bool
  dsa :: bool
  ml :: bool
  django :: bool
  sql :: bool
  project_work :: bool
  aws :: bool

text \<open>The body of \<^verbatim>\<open>GET /api/today\<close>: the flags and \<^verbatim>\<open>exists\<close>.\<close>

record today = checklist +
  exists :: bool

text \<open>A history item, and also the \<^verbatim>\<open>formData\<close> object the submit handler posts.\<close>

record daily = checklist +
  date :: string

record stats =
  total_days_tracked :: int
  total_weeks_reported :: "int option"
  total_months_reported :: "int option"

record weekly_report =
  week_number :: int
  year :: int
  start_date :: string
  end_date :: string
  total_score :: rat
  gym_percentage :: rat
  dsa_percentage :: rat
  ml_percentage :: rat
  django_percentage :: rat
  sql_percentage :: rat
  project_percentage :: rat
  aws_percentage :: rat

record monthly_report =
  m_year :: int
  month :: int
  m_total_days_tracked :: int
  avg_gym :: rat
  avg_dsa :: rat
  avg_ml :: rat
  avg_django :: rat
  avg_sql :: rat
  avg_project :: rat
  avg_aws :: rat

text \<open>
  The error body of a rejected POST. \<open>detail = None\<close> is a JSON object without the
  key (\<^verbatim>\<open>error.detail\<close> is \<^verbatim>\<open>undefined\<close>).
\<close>

record error_body =
  detail :: "string option"

subsection \<open>Outcomes of fetch\<close>

text \<open>
  \<^verbatim>\<open>await fetch(url)\<close> either throws (\<open>Rejected\<close>) or yields a response with a
  status. \<open>json = None\<close> stands for a body on which \<^verbatim>\<open>await response.json()\<close> throws,
  or whose shape makes the handler throw while it renders (a \<^verbatim>\<open>null\<close> where a
  number is formatted, an object where an array is iterated): in the source all of
  these land in the same \<^verbatim>\<open>catch\<close>.
\<close>

datatype 'a response = Response (status: nat) (json: "'a option")

datatype 'a fetched = Rejected | Resolved "'a response"

text \<open>\<^verbatim>\<open>response.ok\<close>: the status is in the range 200-299.\<close>

definition response_ok :: "'a response \<Rightarrow> bool" where
  "response_ok r = (200 \<le> status r \<and> status r \<le> 299)"

datatype request = GET string | POST string daily

subsection \<open>Rendered text\<close>

text \<open>
  A template literal is kept as the list of its pieces. A number interpolated with the
  default conversion stays a number (\<open>Num\<close>), a date formatted by
  \<^verbatim>\<open>toLocaleDateString\<close> stays the call (\<open>LocaleDate\<close>): both conversions belong to
  the browser, not to the script.
\<close>

datatype date_src =
    Instant int          \<comment> \<open>a Date given by its milliseconds\<close>
  | Parsed string        \<comment> \<open>\<^verbatim>\<open>new Date(str)\<close>\<close>
  | YearMonth int int    \<comment> \<open>\<^verbatim>\<open>new Date(year, monthIndex)\<close>\<close>

datatype date_style =
    LongDate             \<comment> \<open>weekday long, year numeric, month long, day numeric\<close>
  | LongMonth            \<comment> \<open>month long\<close>
  | ShortMonthDay        \<comment> \<open>month short, day numeric\<close>
  | ShortWeekdayDate     \<comment> \<open>weekday short, month short, day numeric, year numeric\<close>

datatype piece = Lit string | Num rat | LocaleDate date_style date_src

type_synonym pieces = "piece list"

text \<open>The characters of a text none of whose pieces is left to the browser.\<close>

fun plain :: "pieces \<Rightarrow> string option" where
  "plain [] = Some []"
| "plain (Lit s # ps) = (case plain ps of None \<Rightarrow> None | Some r \<Rightarrow> Some (s @ r))"
| "plain (p # ps) = None"

fun digits_of_nat :: "nat \<Rightarrow> string" where
  "digits_of_nat n =
     (if n < 10 then [''0123456789'' ! n]
      else digits_of_nat (n div 10) @ [''0123456789'' ! (n mod 10)])"

declare digits_of_nat.simps [simp del]

text \<open>
  \<^verbatim>\<open>x.toFixed(1)\<close> on a finite number, after Number.prototype.toFixed: the sign is
  split off; from \<open>10^21\<close> on the result is the default conversion; below, \<open>n\<close> is the
  integer with \<open>n / 10\<close> nearest to the number (the larger one on a tie), printed with
  a point before its last digit. A number is the exact rational value of the double.
\<close>

definition toFixed1 :: "rat \<Rightarrow> piece" where
  "toFixed1 x =
     (let a = \<bar>x\<bar> in
      if 10 ^ 21 \<le> a then Num x
      else
        let n = nat \<lfloor>a * 10 + 1 / 2\<rfloor> in
        Lit ((if x < 0 then ''-'' else '''')
             @ digits_of_nat (n div 10) @ ''.'' @ digits_of_nat (n mod 10)))"

subsection \<open>Rendered regions\<close>

record stat_item =
  stat_value :: pieces
  stat_label :: string

text \<open>
  One status box of today's panel. \<open>status_done\<close> selects the paragraph: the
  check-mark text "Completed" or the cross text "Not checked".
\<close>

record status_item =
  status_class :: string
  status_title :: string
  status_done :: bool

record task_badge =
  badge_class :: string
  badge_text :: string

record history_item =
  history_date :: pieces
  history_tasks :: "task_badge list"

record progress_bar =
  bar_label :: pieces
  bar_width :: rat   \<comment> \<open>the number in \<^verbatim>\<open>style="width: ...%"\<close>\<close>

record report_item =
  report_title :: pieces
  report_score :: pieces
  progress_bars :: "progress_bar list"

text \<open>The \<^verbatim>\<open>innerHTML\<close> of a region.\<close>

datatype html =
    Para string                        \<comment> \<open>\<^verbatim>\<open><p>...</p>\<close>\<close>
  | StatItems "stat_item list"
  | StatusItems "status_item list"
  | HistoryItems "history_item list"
  | ReportItems "report_item list"

subsection \<open>The page\<close>

record tab_btn =
  data_tab :: "string option"          \<comment> \<open>\<^verbatim>\<open>getAttribute('data-tab')\<close>, \<open>None\<close> is null\<close>
  btn_classList :: "string list"

record tab_content =
  content_id :: string
  content_classList :: "string list"

record page =
  origin :: string                     \<comment> \<open>\<^verbatim>\<open>API_BASE_URL\<close>\<close>
  currentTab :: "string option"
  el_date :: string
  el_startDate :: string
  el_endDate :: string
  checked :: checklist                 \<comment> \<open>\<^verbatim>\<open>.checked\<close> of the seven checkboxes\<close>
  el_current_date :: pieces
  el_week_number :: pieces
  el_month_name :: pieces
  el_stats :: html
  el_todayStatus :: html
  el_historyList :: html
  el_weeklyReports :: html
  el_monthlyReports :: html
  tab_btns :: "tab_btn list"           \<comment> \<open>\<^verbatim>\<open>querySelectorAll('.tab-btn')\<close>\<close>
  tab_contents :: "tab_content list"   \<comment> \<open>\<^verbatim>\<open>querySelectorAll('.tab-content')\<close>\<close>
  toast_message :: string
  toast_icon :: string
  toast_background :: string
  toast_classList :: "string list"
  time :: nat                          \<comment> \<open>milliseconds\<close>
  timeouts :: "nat list"               \<comment> \<open>due times of the pending toast timers\<close>
  requests :: "request list"           \<comment> \<open>every fetch issued so far, in order\<close>
  console :: "string list"             \<comment> \<open>\<^verbatim>\<open>console.error\<close>\<close>

text \<open>\<^verbatim>\<open>classList.add\<close> and \<^verbatim>\<open>classList.remove\<close> on an ordered set of tokens.\<close>

definition classList_add :: "string \<Rightarrow> string list \<Rightarrow> string list" where
  "classList_add t cs = (if t \<in> set cs then cs else cs @ [t])"

definition classList_remove :: "string \<Rightarrow> string list \<Rightarrow> string list" where
  "classList_remove t cs = filter (\<lambda>c. c \<noteq> t) cs"

text \<open>A string or null inside a template literal.\<close>

definition interpolate :: "string option \<Rightarrow> string" where
  "interpolate v = (case v of None \<Rightarrow> ''null'' | Some s \<Rightarrow> s)"

text \<open>A possibly missing string property inside a template literal.\<close>

definition interpolate_prop :: "string option \<Rightarrow> string" where
  "interpolate_prop v = (case v of None \<Rightarrow> ''undefined'' | Some s \<Rightarrow> s)"

subsection \<open>updateDateInfo\<close>

text \<open>
  What the handler reads from the clock: \<^verbatim>\<open>now\<close>, and
  \<^verbatim>\<open>startDate = new Date(now.getFullYear(), 0, 1)\<close> (both in milliseconds) with its
  \<^verbatim>\<open>getDay()\<close>. The two divisions are exact on rationals; on doubles they give the
  same floor and ceiling for times and day counts of this size.
\<close>

record now_info =
  now_ms :: int
  startDate_ms :: int
  startDate_getDay :: int

definition updateDateInfo :: "now_info \<Rightarrow> page \<Rightarrow> page" where
  "updateDateInfo now s =
     (let dateStr = [LocaleDate LongDate (Instant (now_ms now))];
          days = \<lfloor>(of_int (now_ms now - startDate_ms now) :: rat) / (24 * 60 * 60 * 1000)\<rfloor>;
          weekNumber = \<lceil>(of_int (days + startDate_getDay now + 1) :: rat) / 7\<rceil>;
          monthName = [LocaleDate LongMonth (Instant (now_ms now))]
      in s\<lparr>el_current_date := dateStr,
            el_week_number := [Num (of_int weekNumber)],
            el_month_name := monthName\<rparr>)"

subsection \<open>showToast and its timers\<close>

definition showToast :: "string \<Rightarrow> string \<Rightarrow> page \<Rightarrow> page" where
  "showToast message type s =
     (let s1 = s\<lparr>toast_message := message\<rparr>;
          s2 = (if type = ''success'' then
                  s1\<lparr>toast_icon := ''toast-icon fas fa-check-circle'',
                      toast_background := ''#48bb78''\<rparr>
                else if type = ''error'' then
                  s1\<lparr>toast_icon := ''toast-icon fas fa-exclamation-circle'',
                      toast_background := ''#f56565''\<rparr>
                else
                  s1\<lparr>toast_icon := ''toast-icon fas fa-info-circle'',
                      toast_background := ''#2d3748''\<rparr>)
      in s2\<lparr>toast_classList := classList_add ''show'' (toast_classList s2),
             timeouts := timeouts s2 @ [time s2 + 3000]\<rparr>)"

text \<open>The callback of every timer: \<^verbatim>\<open>toast.classList.remove('show')\<close>.\<close>

definition hide_toast :: "page \<Rightarrow> page" where
  "hide_toast s = s\<lparr>toast_classList := classList_remove ''show'' (toast_classList s)\<rparr>"

text \<open>
  The browser's side of \<^verbatim>\<open>setTimeout\<close>: \<open>d\<close> milliseconds pass with no handler
  running; every timer that has come due runs its callback and leaves the queue.
\<close>

definition elapse :: "nat \<Rightarrow> page \<Rightarrow> page" where
  "elapse d s =
     (let t = time s + d;
          due = filter (\<lambda>x. x \<le> t) (timeouts s);
          later = filter (\<lambda>x. \<not> x \<le> t) (timeouts s)
      in fold (\<lambda>_. hide_toast) due (s\<lparr>time := t, timeouts := later\<rparr>))"

subsection \<open>clearForm and switchTab\<close>

definition clearForm :: "page \<Rightarrow> page" where
  "clearForm s =
     s\<lparr>checked := \<lparr>gym = False, dsa = False, ml = False, django = False, sql = False,
                    project_work = False, aws = False\<rparr>\<rparr>"

text \<open>The two \<^verbatim>\<open>forEach\<close> callbacks of switchTab.\<close>

definition switch_btn :: "string option \<Rightarrow> tab_btn \<Rightarrow> tab_btn" where
  "switch_btn tab btn =
     (let c = classList_remove ''active'' (btn_classList btn) in
      btn\<lparr>btn_classList := (if data_tab btn = tab then classList_add ''active'' c else c)\<rparr>)"

definition switch_content :: "string option \<Rightarrow> tab_content \<Rightarrow> tab_content" where
  "switch_content tab content =
     (let c = classList_remove ''active'' (content_classList content) in
      content\<lparr>content_classList :=
        (if content_id content = interpolate tab @ ''Tab''
         then classList_add ''active'' c else c)\<rparr>)"

definition switchTab :: "string option \<Rightarrow> page \<Rightarrow> page" where
  "switchTab tab s =
     (if currentTab s = tab then s
      else
        s\<lparr>tab_btns := map (switch_btn tab) (tab_btns s),
          tab_contents := map (switch_content tab) (tab_contents s),
          currentTab := tab\<rparr>)"

text \<open>The click handler of a tab button: \<open>i\<close> is the button's position.\<close>

definition tab_btn_click :: "nat \<Rightarrow> page \<Rightarrow> page" where
  "tab_btn_click i s =
     (if i < length (tab_btns s) then switchTab (data_tab (tab_btns s ! i)) s else s)"

subsection \<open>The five read operations\<close>

definition loadStats_start :: "page \<Rightarrow> page" where
  "loadStats_start s = s\<lparr>requests := requests s @ [GET (origin s @ ''/api/stats/'')]\<rparr>"

text \<open>\<^verbatim>\<open>n || 0\<close> on a count that may be missing.\<close>

definition or_zero :: "int option \<Rightarrow> int" where
  "or_zero n = (case n of None \<Rightarrow> 0 | Some k \<Rightarrow> if k = 0 then 0 else k)"

definition loadStats_catch :: "page \<Rightarrow> page" where
  "loadStats_catch s =
     s\<lparr>console := console s @ [''Error loading stats:''],
       el_stats := Para ''Loading...''\<rparr>"

definition loadStats_done :: "stats fetched \<Rightarrow> page \<Rightarrow> page" where
  "loadStats_done out s =
     (case out of
        Rejected \<Rightarrow> loadStats_catch s
      | Resolved r \<Rightarrow>
          if response_ok r then
            (case json r of
               None \<Rightarrow> loadStats_catch s
             | Some st \<Rightarrow>
                 s\<lparr>el_stats := StatItems
                   [\<lparr>stat_value = [Num (of_int (total_days_tracked st))],
                     stat_label = ''Days Tracked''\<rparr>,
                    \<lparr>stat_value = [Num (of_int (or_zero (total_weeks_reported st)))],
                     stat_label = ''Weeks''\<rparr>,
                    \<lparr>stat_value = [Num (of_int (or_zero (total_months_reported st)))],
                     stat_label = ''Months''\<rparr>]\<rparr>)
          else s)"

definition loadTodayStatus_start :: "page \<Rightarrow> page" where
  "loadTodayStatus_start s = s\<lparr>requests := requests s @ [GET (origin s @ ''/api/today'')]\<rparr>"

definition status_box :: "string \<Rightarrow> bool \<Rightarrow> status_item" where
  "status_box title flag =
     \<lparr>status_class = ''status-item '' @ (if flag then ''completed'' else ''pending''),
      status_title = title,
      status_done = flag\<rparr>"

text \<open>The \<^verbatim>\<open>catch\<close> of loadTodayStatus only logs.\<close>

definition loadTodayStatus_catch :: "page \<Rightarrow> page" where
  "loadTodayStatus_catch s = s\<lparr>console := console s @ [''Error loading today status:'']\<rparr>"

definition loadTodayStatus_done :: "today fetched \<Rightarrow> page \<Rightarrow> page" where
  "loadTodayStatus_done out s =
     (case out of
        Rejected \<Rightarrow> loadTodayStatus_catch s
      | Resolved r \<Rightarrow>
          if response_ok r then
            (case json r of
               None \<Rightarrow> loadTodayStatus_catch s
             | Some data \<Rightarrow>
                 let s1 = s\<lparr>el_todayStatus := StatusItems
                            [status_box ''GYM'' (gym data),
                             status_box ''DSA'' (dsa data),
                             status_box ''ML'' (ml data),
                             status_box ''Django'' (django data),
                             status_box ''SQL'' (sql data),
                             status_box ''Project'' (project_work data),
                             status_box ''AWS'' (aws data)]\<rparr>
                 in if exists data then
                      s1\<lparr>checked := \<lparr>gym = gym data, dsa = dsa data, ml = ml data,
                                      django = django data, sql = sql data,
                                      project_work = project_work data, aws = aws data\<rparr>\<rparr>
                    else clearForm s1)
          else s)"

text \<open>A string is truthy when it is not empty.\<close>

definition loadHistory_start :: "page \<Rightarrow> page" where
  "loadHistory_start s =
     (let startDate = el_startDate s;
          endDate = el_endDate s;
          url = origin s @ ''/api/daily/'';
          url = (if startDate \<noteq> [] \<and> endDate \<noteq> []
                 then url @ ''?start_date='' @ startDate @ ''&end_date='' @ endDate
                 else url)
      in s\<lparr>requests := requests s @ [GET url]\<rparr>)"

definition loadHistory_catch :: "page \<Rightarrow> page" where
  "loadHistory_catch s =
     s\<lparr>console := console s @ [''Error loading history:''],
       el_historyList := Para ''Error loading history''\<rparr>"

definition history_row :: "daily \<Rightarrow> history_item" where
  "history_row item =
     (let completedTasks =
            (if gym item then [''GYM''] else []) @
            (if dsa item then [''DSA''] else []) @
            (if ml item then [''ML''] else []) @
            (if django item then [''Django''] else []) @
            (if sql item then [''SQL''] else []) @
            (if project_work item then [''Project''] else []) @
            (if aws item then [''AWS''] else [])
      in \<lparr>history_date = [LocaleDate ShortWeekdayDate (Parsed (date item))],
          history_tasks =
            (if length completedTasks > 0
             then map (\<lambda>task. \<lparr>badge_class = ''task-badge completed'', badge_text = task\<rparr>)
                    completedTasks
             else [\<lparr>badge_class = ''task-badge'', badge_text = ''No tasks completed''\<rparr>])\<rparr>)"

definition loadHistory_done :: "daily list fetched \<Rightarrow> page \<Rightarrow> page" where
  "loadHistory_done out s =
     (case out of
        Rejected \<Rightarrow> loadHistory_catch s
      | Resolved r \<Rightarrow>
          if response_ok r then
            (case json r of
               None \<Rightarrow> loadHistory_catch s
             | Some history \<Rightarrow>
                 if length history = 0 then s\<lparr>el_historyList := Para ''No history found.''\<rparr>
                 else s\<lparr>el_historyList := HistoryItems (map history_row history)\<rparr>)
          else s)"

text \<open>One labelled bar: the label is not clamped, the width is.\<close>

definition bar :: "string \<Rightarrow> rat \<Rightarrow> progress_bar" where
  "bar name p =
     \<lparr>bar_label = [Lit (name @ '': ''), toFixed1 p, Lit ''%''],
      bar_width = min p 100\<rparr>"

definition loadWeeklyReports_start :: "page \<Rightarrow> page" where
  "loadWeeklyReports_start s =
     s\<lparr>requests := requests s @ [GET (origin s @ ''/api/weekly/'')]\<rparr>"

definition loadWeeklyReports_catch :: "page \<Rightarrow> page" where
  "loadWeeklyReports_catch s =
     s\<lparr>console := console s @ [''Error loading weekly reports:''],
       el_weeklyReports := Para ''Loading...''\<rparr>"

definition weekly_item :: "weekly_report \<Rightarrow> report_item" where
  "weekly_item report =
     (let startDate = LocaleDate ShortMonthDay (Parsed (start_date report));
          endDate = LocaleDate ShortMonthDay (Parsed (end_date report))
      in \<lparr>report_title =
            [Lit ''Week '', Num (of_int (week_number report)), Lit '', '',
             Num (of_int (year report)), Lit '' ('', startDate, Lit '' - '', endDate,
             Lit '')''],
          report_score = [toFixed1 (total_score report), Lit ''%''],
          progress_bars =
            [bar ''GYM'' (gym_percentage report),
             bar ''DSA'' (dsa_percentage report),
             bar ''ML'' (ml_percentage report),
             bar ''Django'' (django_percentage report),
             bar ''SQL'' (sql_percentage report),
             bar ''Project'' (project_percentage report),
             bar ''AWS'' (aws_percentage report)]\<rparr>)"

definition loadWeeklyReports_done :: "weekly_report list fetched \<Rightarrow> page \<Rightarrow> page" where
  "loadWeeklyReports_done out s =
     (case out of
        Rejected \<Rightarrow> loadWeeklyReports_catch s
      | Resolved r \<Rightarrow>
          if response_ok r then
            (case json r of
               None \<Rightarrow> loadWeeklyReports_catch s
             | Some reports \<Rightarrow>
                 if length reports = 0
                 then s\<lparr>el_weeklyReports := Para ''No weekly reports yet.''\<rparr>
                 else s\<lparr>el_weeklyReports := ReportItems (map weekly_item reports)\<rparr>)
          else s)"

definition loadMonthlyReports_start :: "page \<Rightarrow> page" where
  "loadMonthlyReports_start s =
     s\<lparr>requests := requests s @ [GET (origin s @ ''/api/monthly/'')]\<rparr>"

definition loadMonthlyReports_catch :: "page \<Rightarrow> page" where
  "loadMonthlyReports_catch s =
     s\<lparr>console := console s @ [''Error loading monthly reports:''],
       el_monthlyReports := Para ''Loading...''\<rparr>"

definition monthly_item :: "monthly_report \<Rightarrow> report_item" where
  "monthly_item report =
     (let monthName = LocaleDate LongMonth (YearMonth (m_year report) (month report - 1))
      in \<lparr>report_title = [monthName, Lit '' '', Num (of_int (m_year report))],
          report_score = [Num (of_int (m_total_days_tracked report)), Lit '' days''],
          progress_bars =
            [bar ''GYM'' (avg_gym report),
             bar ''DSA'' (avg_dsa report),
             bar ''ML'' (avg_ml report),
             bar ''Django'' (avg_django report),
             bar ''SQL'' (avg_sql report),
             bar ''Project'' (avg_project report),
             bar ''AWS'' (avg_aws report)]\<rparr>)"

definition loadMonthlyReports_done :: "monthly_report list fetched \<Rightarrow> page \<Rightarrow> page" where
  "loadMonthlyReports_done out s =
     (case out of
        Rejected \<Rightarrow> loadMonthlyReports_catch s
      | Resolved r \<Rightarrow>
          if response_ok r then
            (case json r of
               None \<Rightarrow> loadMonthlyReports_catch s
             | Some reports \<Rightarrow>
                 if length reports = 0
                 then s\<lparr>el_monthlyReports := Para ''No monthly reports yet.''\<rparr>
                 else s\<lparr>el_monthlyReports := ReportItems (map monthly_item reports)\<rparr>)
          else s)"

subsection \<open>The submit handler and the refresh timer\<close>

definition dailyForm_submit_start :: "page \<Rightarrow> page" where
  "dailyForm_submit_start s =
     (let formData =
            \<lparr>gym = gym (checked s), dsa = dsa (checked s), ml = ml (checked s),
             django = django (checked s), sql = sql (checked s),
             project_work = project_work (checked s), aws = aws (checked s),
             date = el_date s\<rparr>
      in s\<lparr>requests := requests s @ [POST (origin s @ ''/api/daily/'') formData]\<rparr>)"

definition dailyForm_submit_catch :: "page \<Rightarrow> page" where
  "dailyForm_submit_catch s =
     showToast ''Network error. Please check if server is running.'' ''error'' s"

definition dailyForm_submit_done :: "error_body fetched \<Rightarrow> page \<Rightarrow> page" where
  "dailyForm_submit_done out s =
     (case out of
        Rejected \<Rightarrow> dailyForm_submit_catch s
      | Resolved r \<Rightarrow>
          if response_ok r then
            loadHistory_start
              (loadMonthlyReports_start
                (loadWeeklyReports_start
                  (loadStats_start
                    (loadTodayStatus_start
                      (clearForm
                        (showToast ''Checklist saved successfully!'' ''success'' s))))))
          else
            (case json r of
               None \<Rightarrow> dailyForm_submit_catch s
             | Some error \<Rightarrow>
                 showToast (''Error: '' @ interpolate_prop (detail error)) ''error'' s))"

text \<open>The callback of \<^verbatim>\<open>setInterval(..., 30000)\<close>.\<close>

definition autoRefresh :: "page \<Rightarrow> page" where
  "autoRefresh s = loadStats_start (loadTodayStatus_start s)"

section \<open>Stating the properties\<close>

text \<open>A request fails when it throws or when the status is not 2xx.\<close>

definition failed :: "'a fetched \<Rightarrow> bool" where
  "failed out = (case out of Rejected \<Rightarrow> True | Resolved r \<Rightarrow> \<not> response_ok r)"

text \<open>Everything showToast writes.\<close>

definition toast_of :: "page \<Rightarrow> string \<times> string \<times> string \<times> string list \<times> nat list" where
  "toast_of s = (toast_message s, toast_icon s, toast_background s, toast_classList s, timeouts s)"

text \<open>A region holds a one-paragraph message (placeholder, empty state or error).\<close>

definition is_message :: "html \<Rightarrow> bool" where
  "is_message h = (case h of Para m \<Rightarrow> True | _ \<Rightarrow> False)"

definition all_unchecked :: checklist where
  "all_unchecked = \<lparr>gym = False, dsa = False, ml = False, django = False, sql = False,
                     project_work = False, aws = False\<rparr>"

text \<open>The URL loadHistory fetches, from the two date inputs.\<close>

definition history_url :: "page \<Rightarrow> string" where
  "history_url s =
     (if el_startDate s \<noteq> [] \<and> el_endDate s \<noteq> []
      then origin s @ ''/api/daily/?start_date='' @ el_startDate s @ ''&end_date='' @ el_endDate s
      else origin s @ ''/api/daily/'')"

text \<open>The user ticks or unticks boxes of the form.\<close>

definition user_sets :: "checklist \<Rightarrow> page \<Rightarrow> page" where
  "user_sets c s = s\<lparr>checked := c\<rparr>"

definition btn_active :: "tab_btn \<Rightarrow> bool" where
  "btn_active b = (''active'' \<in> set (btn_classList b))"

definition content_active :: "tab_content \<Rightarrow> bool" where
  "content_active c = (''active'' \<in> set (content_classList c))"

text \<open>Whole days elapsed since January 1st, on integers.\<close>

definition dayOfYear :: "now_info \<Rightarrow> int" where
  "dayOfYear now = (now_ms now - startDate_ms now) div 86400000"

subsection \<open>A concrete page\<close>

text \<open>
  Modelled from the spec: the page template (index.html) is not among the sources. The
  spec names three views, \<^verbatim>\<open>weekly\<close>, \<^verbatim>\<open>monthly\<close> and \<^verbatim>\<open>history\<close>, with \<^verbatim>\<open>weekly\<close>
  active at first; the script addresses their buttons by \<^verbatim>\<open>data-tab\<close> and their panels
  by the id \<^verbatim>\<open>weeklyTab\<close>, \<^verbatim>\<open>monthlyTab\<close>, \<^verbatim>\<open>historyTab\<close>. The theorems below hold for
  every page; this one is where they are evaluated.
\<close>

definition example_page :: page where
  "example_page =
     \<lparr>origin = ''http://localhost:8000'',
      currentTab = Some ''weekly'',
      el_date = ''2024-03-05'',
      el_startDate = ''2024-02-27'',
      el_endDate = ''2024-03-05'',
      checked = \<lparr>gym = True, dsa = False, ml = True, django = False, sql = False,
                  project_work = False, aws = True\<rparr>,
      el_current_date = [],
      el_week_number = [],
      el_month_name = [],
      el_stats = Para ''Loading...'',
      el_todayStatus = Para ''Loading...'',
      el_historyList = Para ''Loading...'',
      el_weeklyReports = Para ''Loading...'',
      el_monthlyReports = Para ''Loading...'',
      tab_btns = [\<lparr>data_tab = Some ''weekly'', btn_classList = [''tab-btn'', ''active'']\<rparr>,
                  \<lparr>data_tab = Some ''monthly'', btn_classList = [''tab-btn'']\<rparr>,
                  \<lparr>data_tab = Some ''history'', btn_classList = [''tab-btn'']\<rparr>],
      tab_contents =
        [\<lparr>content_id = ''weeklyTab'', content_classList = [''tab-content'', ''active'']\<rparr>,
         \<lparr>content_id = ''monthlyTab'', content_classList = [''tab-content'']\<rparr>,
         \<lparr>content_id = ''historyTab'', content_classList = [''tab-content'']\<rparr>],
      toast_message = [],
      toast_icon = ''toast-icon'',
      toast_background = [],
      toast_classList = [''toast''],
      time = 0,
      timeouts = [],
      requests = [],
      console = []\<rparr>"

definition example_stats :: stats where
  "example_stats = \<lparr>total_days_tracked = 12, total_weeks_reported = Some 2,
                     total_months_reported = None\<rparr>"

text \<open>The seven percentages of a report, with the names their bars carry.\<close>

definition weekly_percentages :: "weekly_report \<Rightarrow> (string \<times> rat) list" where
  "weekly_percentages report =
     [(''GYM'', gym_percentage report), (''DSA'', dsa_percentage report),
      (''ML'', ml_percentage report), (''Django'', django_percentage report),
      (''SQL'', sql_percentage report), (''Project'', project_percentage report),
      (''AWS'', aws_percentage report)]"

definition monthly_percentages :: "monthly_report \<Rightarrow> (string \<times> rat) list" where
  "monthly_percentages report =
     [(''GYM'', avg_gym report), (''DSA'', avg_dsa report), (''ML'', avg_ml report),
      (''Django'', avg_django report), (''SQL'', avg_sql report),
      (''Project'', avg_project report), (''AWS'', avg_aws report)]"

text \<open>What a bar shows: its label and its width.\<close>

definition shown :: "progress_bar \<Rightarrow> pieces \<times> rat" where
  "shown b = (bar_label b, bar_width b)"

text \<open>Reading a decimal numeral back.\<close>

definition nat_of_digits :: "string \<Rightarrow> nat" where
  "nat_of_digits cs = foldl (\<lambda>a c. 10 * a + (of_char c - 48)) 0 cs"

text \<open>
  \<open>str\<close> is \<open>p\<close> to one decimal place: a sign, the digits of a natural number \<open>n\<close>
  with a point before the last one, and \<open>n / 10\<close> is a tenth nearest to \<open>\<bar>p\<bar>\<close>.
\<close>

definition one_decimal :: "rat \<Rightarrow> string \<Rightarrow> bool" where
  "one_decimal p str =
     (\<exists>n::nat.
        str = (if p < 0 then ''-'' else '''')
                @ digits_of_nat (n div 10) @ ''.'' @ digits_of_nat (n mod 10) \<and>
        length (digits_of_nat (n mod 10)) = 1 \<and>
        \<bar>of_nat n / 10 - \<bar>p\<bar>\<bar> \<le> 1 / 20)"

definition example_weekly :: weekly_report where
  "example_weekly =
     \<lparr>week_number = 10, year = 2024, start_date = ''2024-03-04'', end_date = ''2024-03-10'',
      total_score = 57, gym_percentage = 150, dsa_percentage = 100 / 3, ml_percentage = 0,
      django_percentage = 1 / 4, sql_percentage = 100, project_percentage = - (1 / 25),
      aws_percentage = 999 / 10\<rparr>"

definition example_monthly :: monthly_report where
  "example_monthly =
     \<lparr>m_year = 2024, month = 3, m_total_days_tracked = 5,
      avg_gym = 150, avg_dsa = 20, avg_ml = 0, avg_django = 40, avg_sql = 60,
      avg_project = 80, avg_aws = 100\<rparr>"

text \<open>A payload of \<^verbatim>\<open>/api/today\<close> with some flags set.\<close>

definition example_today :: "bool \<Rightarrow> today" where
  "example_today e =
     \<lparr>gym = False, dsa = True, ml = True, django = False, sql = True,
      project_work = False, aws = False, exists = e\<rparr>"

section \<open>Properties\<close>

subsection \<open>What showToast and clearForm touch\<close>

lemma showToast_checked: "checked (showToast m t s) = checked s"
  by (simp add: showToast_def Let_def)

lemma showToast_requests: "requests (showToast m t s) = requests s"
  by (simp add: showToast_def Let_def)

lemma showToast_message: "toast_message (showToast m t s) = m"
  by (simp add: showToast_def Let_def)

lemma showToast_shown: "''show'' \<in> set (toast_classList (showToast m t s))"
  by (simp add: showToast_def Let_def classList_add_def)

lemma showToast_error:
  "toast_icon (showToast m ''error'' s) = ''toast-icon fas fa-exclamation-circle'' \<and>
   toast_background (showToast m ''error'' s) = ''#f56565''"
  by (simp add: showToast_def Let_def)

lemma showToast_success:
  "toast_icon (showToast m ''success'' s) = ''toast-icon fas fa-check-circle''"
  "toast_background (showToast m ''success'' s) = ''#48bb78''"
  by (simp_all add: showToast_def Let_def)

lemma showToast_frame:
  "origin (showToast m t s) = origin s"
  "el_startDate (showToast m t s) = el_startDate s"
  "el_endDate (showToast m t s) = el_endDate s"
  "time (showToast m t s) = time s"
  by (simp_all add: showToast_def Let_def)

lemma showToast_timeouts: "timeouts (showToast m t s) = timeouts s @ [time s + 3000]"
  by (simp add: showToast_def Let_def)

lemma clearForm_simps:
  "checked (clearForm s) = all_unchecked"
  "requests (clearForm s) = requests s"
  "origin (clearForm s) = origin s"
  "el_startDate (clearForm s) = el_startDate s"
  "el_endDate (clearForm s) = el_endDate s"
  "toast_of (clearForm s) = toast_of s"
  by (simp_all add: clearForm_def all_unchecked_def toast_of_def)

lemma toast_of_message: "toast_message s = fst (toast_of s)"
  and toast_of_icon: "toast_icon s = fst (snd (toast_of s))"
  and toast_of_background: "toast_background s = fst (snd (snd (toast_of s)))"
  and toast_of_classList: "toast_classList s = fst (snd (snd (snd (toast_of s))))"
  and toast_of_timeouts: "timeouts s = snd (snd (snd (snd (toast_of s))))"
  by (simp_all add: toast_of_def)

subsection \<open>A failed submission\<close>

text \<open>
  C1. When the POST fails (it throws, or the status is not 2xx) the continuation of the
  submit handler leaves the seven checkboxes as they are and issues no request, so none
  of the five reads runs; it shows an error notification. If the request threw, the
  message is the fixed network-error text. If a non-2xx response carries a JSON body with
  a \<^verbatim>\<open>detail\<close> string, the message is \<^verbatim>\<open>Error: \<close> followed by that string. (A non-2xx
  response whose body is not JSON ends in the \<^verbatim>\<open>catch\<close> and gets the network-error text;
  the form and the request log are untouched there too.)
\<close>

theorem submit_failure_keeps_form:
  assumes "failed out"
  shows "checked (dailyForm_submit_done out s) = checked s \<and>
         requests (dailyForm_submit_done out s) = requests s \<and>
         ''show'' \<in> set (toast_classList (dailyForm_submit_done out s)) \<and>
         toast_background (dailyForm_submit_done out s) = ''#f56565'' \<and>
         (out = Rejected \<longrightarrow>
            toast_message (dailyForm_submit_done out s)
              = ''Network error. Please check if server is running.'') \<and>
         (\<forall>r e d. out = Resolved r \<and> json r = Some e \<and> detail e = Some d \<longrightarrow>
            toast_message (dailyForm_submit_done out s) = ''Error: '' @ d)"
  using assms
  by (cases out)
     (auto simp: failed_def dailyForm_submit_done_def dailyForm_submit_catch_def
        showToast_checked showToast_requests showToast_message showToast_shown showToast_error
        interpolate_prop_def split: option.splits)

theorem submit_failure_keeps_form_witness:
  "failed (Resolved (Response 400 (Some \<lparr>detail = Some ''Entry already exists''\<rparr>))) \<and>
   toast_message (dailyForm_submit_done
       (Resolved (Response 400 (Some \<lparr>detail = Some ''Entry already exists''\<rparr>))) example_page)
     = ''Error: Entry already exists'' \<and>
   checked (dailyForm_submit_done
       (Resolved (Response 400 (Some \<lparr>detail = Some ''Entry already exists''\<rparr>))) example_page)
     = \<lparr>gym = True, dsa = False, ml = True, django = False, sql = False,
        project_work = False, aws = True\<rparr> \<and>
   requests (dailyForm_submit_done
       (Resolved (Response 400 (Some \<lparr>detail = Some ''Entry already exists''\<rparr>))) example_page)
     = []"
  using submit_failure_keeps_form
    [of "Resolved (Response 400 (Some \<lparr>detail = Some ''Entry already exists''\<rparr>))" example_page]
  by (simp add: failed_def response_ok_def example_page_def)

subsection \<open>Failed reads\<close>

lemma loadStats_done_Rejected: "loadStats_done Rejected s = loadStats_catch s"
  by (simp add: loadStats_done_def)

lemma loadStats_done_not_ok: "\<not> response_ok r \<Longrightarrow> loadStats_done (Resolved r) s = s"
  by (simp add: loadStats_done_def)

lemma loadStats_catch_toast: "toast_of (loadStats_catch s) = toast_of s"
  by (simp add: loadStats_catch_def toast_of_def)

lemma loadStats_catch_region: "el_stats (loadStats_catch s) = Para ''Loading...''"
  by (simp add: loadStats_catch_def)

lemma loadTodayStatus_done_Rejected: "loadTodayStatus_done Rejected s = loadTodayStatus_catch s"
  by (simp add: loadTodayStatus_done_def)

lemma loadTodayStatus_done_not_ok:
  "\<not> response_ok r \<Longrightarrow> loadTodayStatus_done (Resolved r) s = s"
  by (simp add: loadTodayStatus_done_def)

lemma loadTodayStatus_catch_toast: "toast_of (loadTodayStatus_catch s) = toast_of s"
  by (simp add: loadTodayStatus_catch_def toast_of_def)

lemma loadHistory_done_Rejected: "loadHistory_done Rejected s = loadHistory_catch s"
  by (simp add: loadHistory_done_def)

lemma loadHistory_done_not_ok: "\<not> response_ok r \<Longrightarrow> loadHistory_done (Resolved r) s = s"
  by (simp add: loadHistory_done_def)

lemma loadHistory_catch_toast: "toast_of (loadHistory_catch s) = toast_of s"
  by (simp add: loadHistory_catch_def toast_of_def)

lemma loadHistory_catch_region:
  "el_historyList (loadHistory_catch s) = Para ''Error loading history''"
  by (simp add: loadHistory_catch_def)

lemma loadWeeklyReports_done_Rejected:
  "loadWeeklyReports_done Rejected s = loadWeeklyReports_catch s"
  by (simp add: loadWeeklyReports_done_def)

lemma loadWeeklyReports_done_not_ok:
  "\<not> response_ok r \<Longrightarrow> loadWeeklyReports_done (Resolved r) s = s"
  by (simp add: loadWeeklyReports_done_def)

lemma loadWeeklyReports_catch_toast: "toast_of (loadWeeklyReports_catch s) = toast_of s"
  by (simp add: loadWeeklyReports_catch_def toast_of_def)

lemma loadWeeklyReports_catch_region:
  "el_weeklyReports (loadWeeklyReports_catch s) = Para ''Loading...''"
  by (simp add: loadWeeklyReports_catch_def)

lemma loadMonthlyReports_done_Rejected:
  "loadMonthlyReports_done Rejected s = loadMonthlyReports_catch s"
  by (simp add: loadMonthlyReports_done_def)

lemma loadMonthlyReports_done_not_ok:
  "\<not> response_ok r \<Longrightarrow> loadMonthlyReports_done (Resolved r) s = s"
  by (simp add: loadMonthlyReports_done_def)

lemma loadMonthlyReports_catch_toast: "toast_of (loadMonthlyReports_catch s) = toast_of s"
  by (simp add: loadMonthlyReports_catch_def toast_of_def)

lemma loadMonthlyReports_catch_region:
  "el_monthlyReports (loadMonthlyReports_catch s) = Para ''Loading...''"
  by (simp add: loadMonthlyReports_catch_def)

lemma failed_cases:
  assumes "failed out"
  obtains "out = Rejected" | r where "out = Resolved r" and "\<not> response_ok r"
  using assms by (cases out) (simp_all add: failed_def)

text \<open>
  C2, as stated, fails: a read that gets a non-2xx response renders nothing. Here the
  stats region holds the three counters of an earlier successful load; a second load
  answered with status 500 leaves them there, and the region is neither a placeholder
  nor an empty-state nor an error message.
\<close>

theorem failed_read_stale_counterexample:
  "failed (Resolved (Response 500 None) :: stats fetched) \<and>
   el_stats (loadStats_done (Resolved (Response 200 (Some example_stats))) example_page)
     = StatItems
         [\<lparr>stat_value = [Num 12], stat_label = ''Days Tracked''\<rparr>,
          \<lparr>stat_value = [Num 2], stat_label = ''Weeks''\<rparr>,
          \<lparr>stat_value = [Num 0], stat_label = ''Months''\<rparr>] \<and>
   el_stats (loadStats_done (Resolved (Response 500 None))
              (loadStats_done (Resolved (Response 200 (Some example_stats))) example_page))
     = StatItems
         [\<lparr>stat_value = [Num 12], stat_label = ''Days Tracked''\<rparr>,
          \<lparr>stat_value = [Num 2], stat_label = ''Weeks''\<rparr>,
          \<lparr>stat_value = [Num 0], stat_label = ''Months''\<rparr>] \<and>
   \<not> is_message (el_stats (loadStats_done (Resolved (Response 500 None))
              (loadStats_done (Resolved (Response 200 (Some example_stats))) example_page)))"
  by (simp add: failed_def response_ok_def loadStats_done_def example_stats_def or_zero_def
        is_message_def example_page_def)

text \<open>
  C2, amended. No failed read shows a notification: the toast and its timers are as
  before, for all five reads. A read that gets a non-2xx response changes nothing at
  all. A read whose request throws puts the placeholder \<^verbatim>\<open>Loading...\<close> into the stats,
  weekly and monthly regions and the message \<^verbatim>\<open>Error loading history\<close> into the history
  region. (What a thrown request does to the region of today's status is left open
  here.)
\<close>

theorem failed_read_effects:
  assumes "failed a" and "failed b" and "failed c" and "failed d" and "failed e"
  shows "toast_of (loadStats_done a s) = toast_of s \<and>
         toast_of (loadTodayStatus_done b s) = toast_of s \<and>
         toast_of (loadHistory_done c s) = toast_of s \<and>
         toast_of (loadWeeklyReports_done d s) = toast_of s \<and>
         toast_of (loadMonthlyReports_done e s) = toast_of s \<and>
         el_stats (loadStats_done a s)
           = (if a = Rejected then Para ''Loading...'' else el_stats s) \<and>
         el_historyList (loadHistory_done c s)
           = (if c = Rejected then Para ''Error loading history'' else el_historyList s) \<and>
         el_weeklyReports (loadWeeklyReports_done d s)
           = (if d = Rejected then Para ''Loading...'' else el_weeklyReports s) \<and>
         el_monthlyReports (loadMonthlyReports_done e s)
           = (if e = Rejected then Para ''Loading...'' else el_monthlyReports s) \<and>
         (a \<noteq> Rejected \<longrightarrow> loadStats_done a s = s) \<and>
         (b \<noteq> Rejected \<longrightarrow> loadTodayStatus_done b s = s) \<and>
         (c \<noteq> Rejected \<longrightarrow> loadHistory_done c s = s) \<and>
         (d \<noteq> Rejected \<longrightarrow> loadWeeklyReports_done d s = s) \<and>
         (e \<noteq> Rejected \<longrightarrow> loadMonthlyReports_done e s = s)"
proof -
  have A: "toast_of (loadStats_done a s) = toast_of s"
          "el_stats (loadStats_done a s)
             = (if a = Rejected then Para ''Loading...'' else el_stats s)"
          "a \<noteq> Rejected \<longrightarrow> loadStats_done a s = s"
    using assms(1)
    by (auto elim!: failed_cases
          simp: loadStats_done_Rejected loadStats_done_not_ok loadStats_catch_toast
            loadStats_catch_region)
  have B: "toast_of (loadTodayStatus_done b s) = toast_of s"
          "b \<noteq> Rejected \<longrightarrow> loadTodayStatus_done b s = s"
    using assms(2)
    by (auto elim!: failed_cases
          simp: loadTodayStatus_done_Rejected loadTodayStatus_done_not_ok
            loadTodayStatus_catch_toast)
  have C: "toast_of (loadHistory_done c s) = toast_of s"
          "el_historyList (loadHistory_done c s)
             = (if c = Rejected then Para ''Error loading history'' else el_historyList s)"
          "c \<noteq> Rejected \<longrightarrow> loadHistory_done c s = s"
    using assms(3)
    by (auto elim!: failed_cases
          simp: loadHistory_done_Rejected loadHistory_done_not_ok loadHistory_catch_toast
            loadHistory_catch_region)
  have D: "toast_of (loadWeeklyReports_done d s) = toast_of s"
          "el_weeklyReports (loadWeeklyReports_done d s)
             = (if d = Rejected then Para ''Loading...'' else el_weeklyReports s)"
          "d \<noteq> Rejected \<longrightarrow> loadWeeklyReports_done d s = s"
    using assms(4)
    by (auto elim!: failed_cases
          simp: loadWeeklyReports_done_Rejected loadWeeklyReports_done_not_ok
            loadWeeklyReports_catch_toast loadWeeklyReports_catch_region)
  have E: "toast_of (loadMonthlyReports_done e s) = toast_of s"
          "el_monthlyReports (loadMonthlyReports_done e s)
             = (if e = Rejected then Para ''Loading...'' else el_monthlyReports s)"
          "e \<noteq> Rejected \<longrightarrow> loadMonthlyReports_done e s = s"
    using assms(5)
    by (auto elim!: failed_cases
          simp: loadMonthlyReports_done_Rejected loadMonthlyReports_done_not_ok
            loadMonthlyReports_catch_toast loadMonthlyReports_catch_region)
  from A B C D E show ?thesis by blast
qed

theorem failed_read_effects_witness:
  "failed (Rejected :: stats fetched) \<and>
   failed (Resolved (Response 503 None) :: today fetched) \<and>
   failed (Rejected :: daily list fetched) \<and>
   failed (Resolved (Response 404 None) :: weekly_report list fetched) \<and>
   failed (Rejected :: monthly_report list fetched) \<and>
   toast_of (loadStats_done Rejected example_page) = toast_of example_page \<and>
   el_stats (loadStats_done Rejected example_page) = Para ''Loading...'' \<and>
   loadTodayStatus_done (Resolved (Response 503 None)) example_page = example_page \<and>
   el_historyList (loadHistory_done Rejected example_page) = Para ''Error loading history'' \<and>
   loadWeeklyReports_done (Resolved (Response 404 None)) example_page = example_page \<and>
   el_monthlyReports (loadMonthlyReports_done Rejected example_page) = Para ''Loading...''"
  using failed_read_effects
    [of "Rejected :: stats fetched" "Resolved (Response 503 None) :: today fetched"
        "Rejected :: daily list fetched"
        "Resolved (Response 404 None) :: weekly_report list fetched"
        "Rejected :: monthly_report list fetched" example_page]
  by (simp add: failed_def response_ok_def)

subsection \<open>Today's status and the form\<close>

text \<open>
  C3. After a successful \<^verbatim>\<open>/api/today\<close> response (2xx, with a readable body): if
  \<^verbatim>\<open>exists\<close> is false all seven checkboxes are unchecked, whatever flags the payload
  carries; if \<^verbatim>\<open>exists\<close> is true each checkbox equals the payload's flag.
\<close>

theorem today_sets_checkboxes:
  assumes "response_ok r" and "json r = Some data"
  shows "(\<not> exists data \<longrightarrow> checked (loadTodayStatus_done (Resolved r) s) = all_unchecked) \<and>
         (exists data \<longrightarrow>
            gym (checked (loadTodayStatus_done (Resolved r) s)) = gym data \<and>
            dsa (checked (loadTodayStatus_done (Resolved r) s)) = dsa data \<and>
            ml (checked (loadTodayStatus_done (Resolved r) s)) = ml data \<and>
            django (checked (loadTodayStatus_done (Resolved r) s)) = django data \<and>
            sql (checked (loadTodayStatus_done (Resolved r) s)) = sql data \<and>
            project_work (checked (loadTodayStatus_done (Resolved r) s)) = project_work data \<and>
            aws (checked (loadTodayStatus_done (Resolved r) s)) = aws data)"
  using assms
  by (simp add: loadTodayStatus_done_def clearForm_def all_unchecked_def Let_def)

theorem today_sets_checkboxes_witness:
  "response_ok (Response 200 (Some (example_today False))) \<and>
   checked (loadTodayStatus_done (Resolved (Response 200 (Some (example_today False))))
      example_page) = all_unchecked \<and>
   response_ok (Response 200 (Some (example_today True))) \<and>
   checked (loadTodayStatus_done (Resolved (Response 200 (Some (example_today True))))
      example_page)
     = \<lparr>gym = False, dsa = True, ml = True, django = False, sql = True,
        project_work = False, aws = False\<rparr>"
  using today_sets_checkboxes
      [of "Response 200 (Some (example_today False))" "example_today False" example_page]
    today_sets_checkboxes
      [of "Response 200 (Some (example_today True))" "example_today True" example_page]
  by (simp add: response_ok_def example_today_def loadTodayStatus_done_def clearForm_def
        all_unchecked_def Let_def)

text \<open>
  C10. The refresh timer issues the request for today's status (and the one for the
  stats). When the answer is successful and says \<^verbatim>\<open>exists\<close> is false, the form is
  cleared: whatever boxes the user has ticked, before or after the request went out, end
  unchecked.
\<close>

theorem refresh_clears_unsaved_selection:
  assumes "response_ok r" and "json r = Some data" and "\<not> exists data"
  shows "requests (autoRefresh s) =
           requests s @ [GET (origin s @ ''/api/today''), GET (origin s @ ''/api/stats/'')] \<and>
         checked (loadTodayStatus_done (Resolved r) (user_sets c (autoRefresh s)))
           = all_unchecked \<and>
         checked (loadTodayStatus_done (Resolved r) (autoRefresh (user_sets c s)))
           = all_unchecked"
  using assms
  by (simp add: autoRefresh_def loadTodayStatus_start_def loadStats_start_def
        loadTodayStatus_done_def clearForm_def all_unchecked_def)

theorem refresh_clears_unsaved_selection_witness:
  "response_ok (Response 200 (Some (example_today False))) \<and>
   \<not> exists (example_today False) \<and>
   checked (user_sets \<lparr>gym = True, dsa = True, ml = False, django = False, sql = False,
                        project_work = True, aws = False\<rparr> (autoRefresh example_page))
     = \<lparr>gym = True, dsa = True, ml = False, django = False, sql = False,
        project_work = True, aws = False\<rparr> \<and>
   checked (loadTodayStatus_done (Resolved (Response 200 (Some (example_today False))))
      (user_sets \<lparr>gym = True, dsa = True, ml = False, django = False, sql = False,
                  project_work = True, aws = False\<rparr> (autoRefresh example_page)))
     = \<lparr>gym = False, dsa = False, ml = False, django = False, sql = False,
        project_work = False, aws = False\<rparr>"
  using refresh_clears_unsaved_selection
      [of "Response 200 (Some (example_today False))" "example_today False"
          example_page
          "\<lparr>gym = True, dsa = True, ml = False, django = False, sql = False,
            project_work = True, aws = False\<rparr>"]
  by (simp add: response_ok_def example_today_def all_unchecked_def user_sets_def
        autoRefresh_def loadTodayStatus_start_def loadStats_start_def)

subsection \<open>A successful submission\<close>

lemma start_checked:
  "checked (loadTodayStatus_start s) = checked s"
  "checked (loadStats_start s) = checked s"
  "checked (loadWeeklyReports_start s) = checked s"
  "checked (loadMonthlyReports_start s) = checked s"
  "checked (loadHistory_start s) = checked s"
  by (simp_all add: loadTodayStatus_start_def loadStats_start_def loadWeeklyReports_start_def
        loadMonthlyReports_start_def loadHistory_start_def Let_def)

lemma start_toast:
  "toast_of (loadTodayStatus_start s) = toast_of s"
  "toast_of (loadStats_start s) = toast_of s"
  "toast_of (loadWeeklyReports_start s) = toast_of s"
  "toast_of (loadMonthlyReports_start s) = toast_of s"
  "toast_of (loadHistory_start s) = toast_of s"
  by (simp_all add: loadTodayStatus_start_def loadStats_start_def loadWeeklyReports_start_def
        loadMonthlyReports_start_def loadHistory_start_def Let_def toast_of_def)

lemma start_origin:
  "origin (loadTodayStatus_start s) = origin s"
  "origin (loadStats_start s) = origin s"
  "origin (loadWeeklyReports_start s) = origin s"
  "origin (loadMonthlyReports_start s) = origin s"
  by (simp_all add: loadTodayStatus_start_def loadStats_start_def loadWeeklyReports_start_def
        loadMonthlyReports_start_def)

lemma start_dates:
  "el_startDate (loadTodayStatus_start s) = el_startDate s"
  "el_startDate (loadStats_start s) = el_startDate s"
  "el_startDate (loadWeeklyReports_start s) = el_startDate s"
  "el_startDate (loadMonthlyReports_start s) = el_startDate s"
  "el_endDate (loadTodayStatus_start s) = el_endDate s"
  "el_endDate (loadStats_start s) = el_endDate s"
  "el_endDate (loadWeeklyReports_start s) = el_endDate s"
  "el_endDate (loadMonthlyReports_start s) = el_endDate s"
  by (simp_all add: loadTodayStatus_start_def loadStats_start_def loadWeeklyReports_start_def
        loadMonthlyReports_start_def)

lemma start_requests:
  "requests (loadTodayStatus_start s) = requests s @ [GET (origin s @ ''/api/today'')]"
  "requests (loadStats_start s) = requests s @ [GET (origin s @ ''/api/stats/'')]"
  "requests (loadWeeklyReports_start s) = requests s @ [GET (origin s @ ''/api/weekly/'')]"
  "requests (loadMonthlyReports_start s) = requests s @ [GET (origin s @ ''/api/monthly/'')]"
  by (simp_all add: loadTodayStatus_start_def loadStats_start_def loadWeeklyReports_start_def
        loadMonthlyReports_start_def)

lemma loadHistory_start_requests:
  "requests (loadHistory_start s) = requests s @ [GET (history_url s)]"
  by (simp add: loadHistory_start_def history_url_def Let_def)

lemma submit_ok_unfold:
  "response_ok r \<Longrightarrow>
   dailyForm_submit_done (Resolved r) s =
     loadHistory_start (loadMonthlyReports_start (loadWeeklyReports_start (loadStats_start
       (loadTodayStatus_start (clearForm
         (showToast ''Checklist saved successfully!'' ''success'' s))))))"
  by (simp add: dailyForm_submit_done_def)

text \<open>
  C4. When the POST gets a 2xx response the handler shows the success notification,
  unchecks all seven checkboxes, and then issues the five reads, in this order: today's
  status, stats, weekly reports, monthly reports, history.
\<close>

theorem submit_success_effects:
  assumes "response_ok r"
  shows "toast_message (dailyForm_submit_done (Resolved r) s) = ''Checklist saved successfully!'' \<and>
         toast_background (dailyForm_submit_done (Resolved r) s) = ''#48bb78'' \<and>
         ''show'' \<in> set (toast_classList (dailyForm_submit_done (Resolved r) s)) \<and>
         checked (dailyForm_submit_done (Resolved r) s) = all_unchecked \<and>
         requests (dailyForm_submit_done (Resolved r) s) =
           requests s @
             [GET (origin s @ ''/api/today''),
              GET (origin s @ ''/api/stats/''),
              GET (origin s @ ''/api/weekly/''),
              GET (origin s @ ''/api/monthly/''),
              GET (history_url s)]"
proof -
  let ?t = "showToast ''Checklist saved successfully!'' ''success'' s"
  let ?s' = "dailyForm_submit_done (Resolved r) s"
  have u: "?s' = loadHistory_start (loadMonthlyReports_start (loadWeeklyReports_start
             (loadStats_start (loadTodayStatus_start (clearForm ?t)))))"
    using assms by (rule submit_ok_unfold)
  have toast: "toast_of ?s' = toast_of ?t"
    by (simp only: u start_toast clearForm_simps)
  have m: "toast_message ?s' = ''Checklist saved successfully!''"
    by (simp only: toast_of_message toast) (simp add: toast_of_def showToast_message)
  have b: "toast_background ?s' = ''#48bb78''"
    by (simp only: toast_of_background toast) (simp add: toast_of_def showToast_success)
  have c: "''show'' \<in> set (toast_classList ?s')"
    by (simp only: toast_of_classList toast) (simp add: toast_of_def showToast_shown)
  have k: "checked ?s' = all_unchecked"
    by (simp only: u start_checked clearForm_simps)
  have h: "history_url (loadMonthlyReports_start (loadWeeklyReports_start
             (loadStats_start (loadTodayStatus_start (clearForm ?t))))) = history_url s"
    by (simp add: history_url_def start_origin start_dates clearForm_simps showToast_frame)
  have q: "requests ?s' = requests s @
             [GET (origin s @ ''/api/today''), GET (origin s @ ''/api/stats/''),
              GET (origin s @ ''/api/weekly/''), GET (origin s @ ''/api/monthly/''),
              GET (history_url s)]"
    by (simp add: u loadHistory_start_requests h start_requests start_origin clearForm_simps
          showToast_frame showToast_requests)
  from m b c k q show ?thesis by simp
qed

theorem submit_success_effects_witness:
  "response_ok (Response 201 None :: error_body response) \<and>
   toast_message (dailyForm_submit_done (Resolved (Response 201 None)) example_page)
     = ''Checklist saved successfully!'' \<and>
   checked (dailyForm_submit_done (Resolved (Response 201 None)) example_page) = all_unchecked \<and>
   requests (dailyForm_submit_done (Resolved (Response 201 None)) example_page) =
     [GET ''http://localhost:8000/api/today'',
      GET ''http://localhost:8000/api/stats/'',
      GET ''http://localhost:8000/api/weekly/'',
      GET ''http://localhost:8000/api/monthly/'',
      GET ''http://localhost:8000/api/daily/?start_date=2024-02-27&end_date=2024-03-05'']"
  using submit_success_effects [of "Response 201 None" example_page]
  by (simp add: response_ok_def history_url_def example_page_def)

subsection \<open>Switching tabs\<close>

lemma switchTab_same: "switchTab (currentTab s) s = s"
  by (simp add: switchTab_def)

lemma switchTab_other:
  assumes "currentTab s \<noteq> tab"
  shows "tab_btns (switchTab tab s) = map (switch_btn tab) (tab_btns s)"
    and "tab_contents (switchTab tab s) = map (switch_content tab) (tab_contents s)"
    and "currentTab (switchTab tab s) = tab"
  using assms by (simp_all add: switchTab_def)

lemma switch_btn_active: "btn_active (switch_btn tab b) \<longleftrightarrow> data_tab b = tab"
  by (simp add: btn_active_def switch_btn_def classList_add_def classList_remove_def Let_def)

lemma switch_btn_data_tab: "data_tab (switch_btn tab b) = data_tab b"
  by (simp add: switch_btn_def Let_def)

lemma switch_content_active:
  "content_active (switch_content tab c) \<longleftrightarrow> content_id c = interpolate tab @ ''Tab''"
  by (simp add: content_active_def switch_content_def classList_add_def classList_remove_def
        Let_def)

lemma switch_content_id: "content_id (switch_content tab c) = content_id c"
  by (simp add: switch_content_def Let_def)

lemma active_btns_after:
  "map data_tab (filter btn_active (map (switch_btn tab) bs))
     = map data_tab (filter (\<lambda>b. data_tab b = tab) bs)"
  by (induction bs) (simp_all add: switch_btn_active switch_btn_data_tab)

lemma active_contents_after:
  "map content_id (filter content_active (map (switch_content tab) cs))
     = map content_id (filter (\<lambda>c. content_id c = interpolate tab @ ''Tab'') cs)"
  by (induction cs) (simp_all add: switch_content_active switch_content_id)

lemma map_filter_singleton:
  assumes "length (filter (\<lambda>x. g x = y) xs) = 1"
  shows "map g (filter (\<lambda>x. g x = y) xs) = [y]"
proof -
  obtain x where x: "filter (\<lambda>x. g x = y) xs = [x]"
    using assms by (cases "filter (\<lambda>x. g x = y) xs") simp_all
  then have "x \<in> set (filter (\<lambda>x. g x = y) xs)" by simp
  then have "g x = y" by simp
  with x show ?thesis by simp
qed

text \<open>
  C6. Switching to the tab that is already current changes nothing on the page. Switching
  to another view \<open>v\<close>, on a page that has exactly one selector button with
  \<^verbatim>\<open>data-tab\<close> \<open>v\<close> and exactly one panel with id \<open>v\<close>\<^verbatim>\<open>Tab\<close> (as the template has for
  \<^verbatim>\<open>weekly\<close>, \<^verbatim>\<open>monthly\<close> and \<^verbatim>\<open>history\<close>), leaves exactly one button and exactly one
  panel with the class \<^verbatim>\<open>active\<close>: the ones of \<open>v\<close>.
\<close>

theorem switchTab_exactly_one_active:
  "switchTab (currentTab s) s = s \<and>
   (currentTab s \<noteq> Some v \<and>
    length (filter (\<lambda>b. data_tab b = Some v) (tab_btns s)) = 1 \<and>
    length (filter (\<lambda>c. content_id c = v @ ''Tab'') (tab_contents s)) = 1 \<longrightarrow>
      map data_tab (filter btn_active (tab_btns (switchTab (Some v) s))) = [Some v] \<and>
      map content_id (filter content_active (tab_contents (switchTab (Some v) s)))
        = [v @ ''Tab''] \<and>
      map data_tab (tab_btns (switchTab (Some v) s)) = map data_tab (tab_btns s) \<and>
      map content_id (tab_contents (switchTab (Some v) s)) = map content_id (tab_contents s) \<and>
      currentTab (switchTab (Some v) s) = Some v)"
proof (intro conjI impI)
  show "switchTab (currentTab s) s = s" by (rule switchTab_same)
next
  assume h: "currentTab s \<noteq> Some v \<and>
    length (filter (\<lambda>b. data_tab b = Some v) (tab_btns s)) = 1 \<and>
    length (filter (\<lambda>c. content_id c = v @ ''Tab'') (tab_contents s)) = 1"
  then have ne: "currentTab s \<noteq> Some v" by simp
  have i: "interpolate (Some v) = v" by (simp add: interpolate_def)
  show "map data_tab (filter btn_active (tab_btns (switchTab (Some v) s))) = [Some v]"
    using h by (simp add: switchTab_other(1) [OF ne] active_btns_after map_filter_singleton)
  show "map content_id (filter content_active (tab_contents (switchTab (Some v) s)))
          = [v @ ''Tab'']"
    using h by (simp add: switchTab_other(2) [OF ne] active_contents_after i
                  map_filter_singleton)
  show "map data_tab (tab_btns (switchTab (Some v) s)) = map data_tab (tab_btns s)"
    by (simp add: switchTab_other(1) [OF ne] comp_def switch_btn_data_tab)
  show "map content_id (tab_contents (switchTab (Some v) s)) = map content_id (tab_contents s)"
    by (simp add: switchTab_other(2) [OF ne] comp_def switch_content_id)
  show "currentTab (switchTab (Some v) s) = Some v"
    by (rule switchTab_other(3) [OF ne])
qed

theorem switchTab_exactly_one_active_witness:
  "switchTab (Some ''weekly'') example_page = example_page \<and>
   currentTab example_page \<noteq> Some ''history'' \<and>
   length (filter (\<lambda>b. data_tab b = Some ''history'') (tab_btns example_page)) = 1 \<and>
   length (filter (\<lambda>c. content_id c = ''history'' @ ''Tab'') (tab_contents example_page)) = 1 \<and>
   map data_tab (filter btn_active (tab_btns (switchTab (Some ''history'') example_page)))
     = [Some ''history''] \<and>
   map btn_classList (tab_btns (switchTab (Some ''history'') example_page))
     = [[''tab-btn''], [''tab-btn''], [''tab-btn'', ''active'']] \<and>
   map content_classList (tab_contents (switchTab (Some ''history'') example_page))
     = [[''tab-content''], [''tab-content''], [''tab-content'', ''active'']]"
  using switchTab_exactly_one_active [of example_page "''history''"]
  by (simp add: example_page_def switchTab_def switch_btn_def switch_content_def
        classList_add_def classList_remove_def interpolate_def btn_active_def Let_def)

text \<open>
  C9. Switching to a name that is not the current tab, that no button carries as
  \<^verbatim>\<open>data-tab\<close> and that names no panel (no panel has the id \<^verbatim>\<open>${tab}Tab\<close>) leaves every
  button and every panel without the class \<^verbatim>\<open>active\<close>; the name becomes the current
  tab, so that the same call again changes nothing.
\<close>

theorem switchTab_unknown_tab:
  assumes "currentTab s \<noteq> tab"
    and "\<forall>b \<in> set (tab_btns s). data_tab b \<noteq> tab"
    and "\<forall>c \<in> set (tab_contents s). content_id c \<noteq> interpolate tab @ ''Tab''"
  shows "filter btn_active (tab_btns (switchTab tab s)) = [] \<and>
         filter content_active (tab_contents (switchTab tab s)) = [] \<and>
         currentTab (switchTab tab s) = tab \<and>
         switchTab tab (switchTab tab s) = switchTab tab s"
proof -
  have b: "filter btn_active (tab_btns (switchTab tab s)) = []"
    using assms(2)
    by (simp add: switchTab_other(1) [OF assms(1)] filter_empty_conv switch_btn_active)
  have c: "filter content_active (tab_contents (switchTab tab s)) = []"
    using assms(3)
    by (simp add: switchTab_other(2) [OF assms(1)] filter_empty_conv switch_content_active)
  have t: "currentTab (switchTab tab s) = tab"
    by (rule switchTab_other(3) [OF assms(1)])
  have r: "switchTab tab (switchTab tab s) = switchTab tab s"
    using switchTab_same [of "switchTab tab s"] by (simp only: t)
  from b c t r show ?thesis by simp
qed

theorem switchTab_unknown_tab_witness:
  "currentTab example_page \<noteq> Some ''yearly'' \<and>
   map btn_classList (tab_btns (switchTab (Some ''yearly'') example_page))
     = [[''tab-btn''], [''tab-btn''], [''tab-btn'']] \<and>
   map content_classList (tab_contents (switchTab (Some ''yearly'') example_page))
     = [[''tab-content''], [''tab-content''], [''tab-content'']] \<and>
   filter btn_active (tab_btns (switchTab (Some ''yearly'') example_page)) = [] \<and>
   filter content_active (tab_contents (switchTab (Some ''yearly'') example_page)) = [] \<and>
   currentTab (switchTab (Some ''yearly'') example_page) = Some ''yearly''"
  using switchTab_unknown_tab [of example_page "Some ''yearly''"]
  by (simp add: example_page_def switchTab_def switch_btn_def switch_content_def
        classList_add_def classList_remove_def interpolate_def btn_active_def
        content_active_def Let_def)

subsection \<open>The week number\<close>

text \<open>
  C7. The week number written by updateDateInfo is
  \<open>\<lceil>(dayOfYear + Jan1Weekday + 1) / 7\<rceil>\<close>, with \<open>dayOfYear\<close> the whole days elapsed since
  January 1st of the current year and \<open>Jan1Weekday\<close> the \<^verbatim>\<open>getDay()\<close> of that day. On
  integers this is \<open>(dayOfYear + Jan1Weekday + 7) div 7\<close>.
\<close>

theorem week_number_formula:
  "el_week_number (updateDateInfo now s)
     = [Num (of_int \<lceil>(of_int (dayOfYear now + startDate_getDay now + 1) :: rat) / 7\<rceil>)] \<and>
   \<lceil>(of_int (dayOfYear now + startDate_getDay now + 1) :: rat) / 7\<rceil>
     = (dayOfYear now + startDate_getDay now + 7) div 7"
proof -
  have d: "\<lfloor>(of_int (now_ms now - startDate_ms now) :: rat) / (24 * 60 * 60 * 1000)\<rfloor>
             = dayOfYear now"
  proof -
    have "(24 * 60 * 60 * 1000 :: rat) = of_int 86400000" by simp
    then show ?thesis
      by (simp only: dayOfYear_def floor_divide_of_int_eq)
  qed
  have c: "\<lceil>(of_int n :: rat) / 7\<rceil> = (n + 6) div 7" for n :: int
  proof -
    have "\<lceil>(of_int n :: rat) / of_int 7\<rceil> = - (- n div 7)"
      by (rule ceiling_divide_eq_div)
    also have "\<dots> = (n + 6) div 7" by presburger
    finally show ?thesis by simp
  qed
  have w: "el_week_number (updateDateInfo now s)
             = [Num (of_int \<lceil>(of_int
                 (\<lfloor>(of_int (now_ms now - startDate_ms now) :: rat) / (24 * 60 * 60 * 1000)\<rfloor>
                    + startDate_getDay now + 1) :: rat) / 7\<rceil>)]"
    by (simp add: updateDateInfo_def Let_def)
  have e: "\<lceil>(of_int (dayOfYear now + startDate_getDay now + 1) :: rat) / 7\<rceil>
             = (dayOfYear now + startDate_getDay now + 7) div 7"
  proof -
    have "\<lceil>(of_int (dayOfYear now + startDate_getDay now + 1) :: rat) / 7\<rceil>
            = (dayOfYear now + startDate_getDay now + 1 + 6) div 7"
      by (rule c)
    also have "dayOfYear now + startDate_getDay now + 1 + 6
                 = dayOfYear now + startDate_getDay now + 7"
      by simp
    finally show ?thesis .
  qed
  from w e show ?thesis by (simp only: d simp_thms)
qed

subsection \<open>Toast timers\<close>

lemma hide_toast_idem: "hide_toast (hide_toast s) = hide_toast s"
  by (simp add: hide_toast_def classList_remove_def)

lemma fold_hide_toast:
  "fold (\<lambda>_. hide_toast) xs s = (if xs = [] then s else hide_toast s)"
  by (induction xs arbitrary: s) (simp_all add: hide_toast_idem)

lemma elapse_time: "time (elapse d s) = time s + d"
  by (simp add: elapse_def Let_def fold_hide_toast hide_toast_def)

lemma elapse_timeouts:
  "timeouts (elapse d s) = filter (\<lambda>x. \<not> x \<le> time s + d) (timeouts s)"
  by (simp add: elapse_def Let_def fold_hide_toast hide_toast_def)

lemma elapse_message: "toast_message (elapse d s) = toast_message s"
  by (simp add: elapse_def Let_def fold_hide_toast hide_toast_def)

lemma elapse_hides:
  assumes "x \<in> set (timeouts s)" and "x \<le> time s + d"
  shows "''show'' \<notin> set (toast_classList (elapse d s))"
proof -
  have "filter (\<lambda>x. x \<le> time s + d) (timeouts s) \<noteq> []"
    using assms by (auto simp: filter_empty_conv)
  then show ?thesis
    by (simp add: elapse_def Let_def fold_hide_toast hide_toast_def classList_remove_def)
qed

text \<open>
  C8. Every call of showToast appends its own hide timer, due 3000 ms later, and removes
  none; it overwrites the message, the icon class and the background and makes the toast
  visible. So when a second toast is shown \<open>d\<close> ms after a first one, \<open>0 < d < 3000\<close>, the
  first call's timer hides the toast 3000 ms after the first call, when the second
  message has been visible for only \<open>3000 - d\<close> ms; the second call's timer is still
  pending then.
\<close>

theorem toast_timers_independent:
  "timeouts (showToast m t s) = timeouts s @ [time s + 3000] \<and>
   toast_message (showToast m t s) = m \<and>
   toast_icon (showToast m t s)
     = (if t = ''success'' then ''toast-icon fas fa-check-circle''
        else if t = ''error'' then ''toast-icon fas fa-exclamation-circle''
        else ''toast-icon fas fa-info-circle'') \<and>
   toast_background (showToast m t s)
     = (if t = ''success'' then ''#48bb78''
        else if t = ''error'' then ''#f56565'' else ''#2d3748'') \<and>
   ''show'' \<in> set (toast_classList (showToast m t s)) \<and>
   (0 < d \<and> d < 3000 \<longrightarrow>
      (let s1 = showToast m1 t1 s;
           s2 = showToast m2 t2 (elapse d s1);
           s3 = elapse (3000 - d) s2
       in ''show'' \<in> set (toast_classList s2) \<and>
          time s2 = time s + d \<and>
          time s3 = time s + 3000 \<and>
          ''show'' \<notin> set (toast_classList s3) \<and>
          toast_message s3 = m2 \<and>
          time s + d + 3000 \<in> set (timeouts s3)))"
proof (intro conjI impI)
  show "timeouts (showToast m t s) = timeouts s @ [time s + 3000]"
    by (rule showToast_timeouts)
  show "toast_message (showToast m t s) = m"
    by (rule showToast_message)
  show "toast_icon (showToast m t s)
     = (if t = ''success'' then ''toast-icon fas fa-check-circle''
        else if t = ''error'' then ''toast-icon fas fa-exclamation-circle''
        else ''toast-icon fas fa-info-circle'')"
    by (simp add: showToast_def Let_def)
  show "toast_background (showToast m t s)
     = (if t = ''success'' then ''#48bb78''
        else if t = ''error'' then ''#f56565'' else ''#2d3748'')"
    by (simp add: showToast_def Let_def)
  show "''show'' \<in> set (toast_classList (showToast m t s))"
    by (rule showToast_shown)
next
  assume d: "0 < d \<and> d < 3000"
  define s1 where "s1 = showToast m1 t1 s"
  define e1 where "e1 = elapse d s1"
  define s2 where "s2 = showToast m2 t2 e1"
  define s3 where "s3 = elapse (3000 - d) s2"
  have t1: "time s1 = time s"
    by (simp add: s1_def showToast_frame)
  have q1: "time s + 3000 \<in> set (timeouts s1)"
    by (simp add: s1_def showToast_timeouts)
  have te: "time e1 = time s + d"
    by (simp add: e1_def elapse_time t1)
  have qe: "time s + 3000 \<in> set (timeouts e1)"
    using q1 d by (simp add: e1_def elapse_timeouts t1)
  have t2: "time s2 = time s + d"
    by (simp add: s2_def showToast_frame te)
  have q2: "timeouts s2 = timeouts e1 @ [time s + d + 3000]"
    by (simp add: s2_def showToast_timeouts te)
  have v2: "''show'' \<in> set (toast_classList s2)"
    by (simp add: s2_def showToast_shown)
  have t3: "time s3 = time s + 3000"
    using d by (simp add: s3_def elapse_time t2)
  have h3: "''show'' \<notin> set (toast_classList s3)"
    unfolding s3_def
  proof (rule elapse_hides)
    show "time s + 3000 \<in> set (timeouts s2)" using qe by (simp add: q2)
    show "time s + 3000 \<le> time s2 + (3000 - d)" using d by (simp add: t2)
  qed
  have m3: "toast_message s3 = m2"
    by (simp add: s3_def elapse_message s2_def showToast_message)
  have q3: "time s + d + 3000 \<in> set (timeouts s3)"
    using d by (simp add: s3_def elapse_timeouts q2 t2)
  from v2 t2 t3 h3 m3 q3
  show "let s1 = showToast m1 t1 s;
            s2 = showToast m2 t2 (elapse d s1);
            s3 = elapse (3000 - d) s2
        in ''show'' \<in> set (toast_classList s2) \<and>
           time s2 = time s + d \<and>
           time s3 = time s + 3000 \<and>
           ''show'' \<notin> set (toast_classList s3) \<and>
           toast_message s3 = m2 \<and>
           time s + d + 3000 \<in> set (timeouts s3)"
    by (simp add: Let_def s1_def e1_def s2_def s3_def)
qed

lemma example_toasts:
  "toast_classList (showToast ''second'' ''error''
       (elapse 1000 (showToast ''first'' ''success'' example_page)))
     = [''toast'', ''show'']"
  "toast_of (elapse 2000 (showToast ''second'' ''error''
       (elapse 1000 (showToast ''first'' ''success'' example_page))))
     = (''second'', ''toast-icon fas fa-exclamation-circle'', ''#f56565'', [''toast''], [4000])"
  by (simp_all add: example_page_def showToast_def elapse_def hide_toast_def toast_of_def
        classList_add_def classList_remove_def Let_def)

theorem toast_timers_independent_witness:
  "(0::nat) < 1000 \<and> (1000::nat) < 3000 \<and>
   toast_classList (showToast ''second'' ''error''
       (elapse 1000 (showToast ''first'' ''success'' example_page)))
     = [''toast'', ''show''] \<and>
   toast_of (elapse 2000 (showToast ''second'' ''error''
       (elapse 1000 (showToast ''first'' ''success'' example_page))))
     = (''second'', ''toast-icon fas fa-exclamation-circle'', ''#f56565'', [''toast''], [4000]) \<and>
   time (elapse 2000 (showToast ''second'' ''error''
       (elapse 1000 (showToast ''first'' ''success'' example_page)))) = 3000"
  using toast_timers_independent
      [of "''first''" "''success''" example_page 1000 "''first''" "''success''"
          "''second''" "''error''"]
    example_toasts
  by (simp add: Let_def example_page_def)

subsection \<open>Progress bars\<close>

lemma digit_values: "\<forall>k \<in> set [0..<10]. of_char (''0123456789'' ! k) - 48 = k"
  by code_simp

lemma digit_value: "k < 10 \<Longrightarrow> of_char (''0123456789'' ! k) - 48 = k"
  using digit_values by simp

lemma nat_of_digits_snoc:
  "nat_of_digits (cs @ [c]) = 10 * nat_of_digits cs + (of_char c - 48)"
  by (simp add: nat_of_digits_def)

text \<open>The digits printed are the decimal numeral of the number.\<close>

lemma nat_of_digits_of_nat: "nat_of_digits (digits_of_nat n) = n"
proof (induction n rule: digits_of_nat.induct)
  case (1 n)
  show ?case
  proof (cases "n < 10")
    case True
    then have "digits_of_nat n = [''0123456789'' ! n]"
      by (subst digits_of_nat.simps) simp
    then show ?thesis using True by (simp add: nat_of_digits_def digit_value)
  next
    case False
    then have "digits_of_nat n = digits_of_nat (n div 10) @ [''0123456789'' ! (n mod 10)]"
      by (subst digits_of_nat.simps) simp
    moreover have "nat_of_digits (digits_of_nat (n div 10)) = n div 10"
      using 1 False by simp
    ultimately show ?thesis
      by (simp add: nat_of_digits_snoc digit_value)
  qed
qed

lemma one_digit: "k < 10 \<Longrightarrow> length (digits_of_nat k) = 1"
  by (subst digits_of_nat.simps) simp

text \<open>Below \<open>10^21\<close> the label's number is the input to one decimal place.\<close>

lemma toFixed1_one_decimal:
  assumes "\<bar>p\<bar> < 10 ^ 21"
  shows "\<exists>str. toFixed1 p = Lit str \<and> one_decimal p str"
proof -
  define n where "n = nat \<lfloor>\<bar>p\<bar> * 10 + 1 / 2\<rfloor>"
  have nn: "0 \<le> \<lfloor>\<bar>p\<bar> * 10 + 1 / 2\<rfloor>" by simp
  then have n: "(of_nat n :: rat) = of_int \<lfloor>\<bar>p\<bar> * 10 + 1 / 2\<rfloor>"
    by (simp add: n_def)
  have lo: "of_nat n \<le> \<bar>p\<bar> * 10 + 1 / 2" unfolding n by linarith
  have hi: "\<bar>p\<bar> * 10 + 1 / 2 < of_nat n + 1" unfolding n by linarith
  have near: "\<bar>of_nat n / 10 - \<bar>p\<bar>\<bar> \<le> 1 / 20" using lo hi by linarith
  let ?str = "(if p < 0 then ''-'' else '''')
                @ digits_of_nat (n div 10) @ ''.'' @ digits_of_nat (n mod 10)"
  have "toFixed1 p = Lit ?str"
    using assms by (simp add: toFixed1_def Let_def n_def)
  moreover have "one_decimal p ?str"
    unfolding one_decimal_def using near by (intro exI [of _ n]) (simp add: one_digit)
  ultimately show ?thesis by blast
qed

lemma weekly_bars:
  "map shown (progress_bars (weekly_item report))
     = map (\<lambda>(name, p). ([Lit (name @ '': ''), toFixed1 p, Lit ''%''], min p 100))
         (weekly_percentages report)"
  by (simp add: weekly_item_def weekly_percentages_def bar_def shown_def Let_def)

lemma monthly_bars:
  "map shown (progress_bars (monthly_item report))
     = map (\<lambda>(name, p). ([Lit (name @ '': ''), toFixed1 p, Lit ''%''], min p 100))
         (monthly_percentages report)"
  by (simp add: monthly_item_def monthly_percentages_def bar_def shown_def Let_def)

lemma toFixed1_150: "toFixed1 150 = Lit ''150.0''"
  by code_simp

lemma bar_150:
  "shown (bar ''GYM'' 150) = ([Lit ''GYM: '', Lit ''150.0'', Lit ''%''], 100)"
  "plain (bar_label (bar ''GYM'' 150)) = Some ''GYM: 150.0%''"
  by (simp_all add: bar_def shown_def toFixed1_150)

text \<open>
  C5. A successful, non-empty weekly (monthly) response is rendered as one card per
  report. In every card, each of the seven percentages \<open>p\<close> has a bar of width
  \<open>min p 100\<close> and a label made of the task's name, \<^verbatim>\<open>p.toFixed(1)\<close> and \<^verbatim>\<open>%\<close>: the
  label is not clamped. Below \<open>10^21\<close> in absolute value \<^verbatim>\<open>p.toFixed(1)\<close> is \<open>p\<close> to
  one decimal place. For \<open>p = 150\<close> the width is 100 and the label reads
  \<^verbatim>\<open>GYM: 150.0%\<close>.
\<close>

theorem report_bars_clamped_labels_not:
  assumes "response_ok r" and "json r = Some reports" and "reports \<noteq> []"
    and "response_ok r'" and "json r' = Some mreports" and "mreports \<noteq> []"
  shows "el_weeklyReports (loadWeeklyReports_done (Resolved r) s)
           = ReportItems (map weekly_item reports) \<and>
         (\<forall>report \<in> set reports.
            map shown (progress_bars (weekly_item report))
              = map (\<lambda>(name, p). ([Lit (name @ '': ''), toFixed1 p, Lit ''%''], min p 100))
                  (weekly_percentages report)) \<and>
         el_monthlyReports (loadMonthlyReports_done (Resolved r') s)
           = ReportItems (map monthly_item mreports) \<and>
         (\<forall>report \<in> set mreports.
            map shown (progress_bars (monthly_item report))
              = map (\<lambda>(name, p). ([Lit (name @ '': ''), toFixed1 p, Lit ''%''], min p 100))
                  (monthly_percentages report)) \<and>
         (\<forall>p. \<bar>p\<bar> < 10 ^ 21 \<longrightarrow> (\<exists>str. toFixed1 p = Lit str \<and> one_decimal p str)) \<and>
         shown (bar ''GYM'' 150) = ([Lit ''GYM: '', Lit ''150.0'', Lit ''%''], 100) \<and>
         plain (bar_label (bar ''GYM'' 150)) = Some ''GYM: 150.0%''"
proof -
  have w: "el_weeklyReports (loadWeeklyReports_done (Resolved r) s)
             = ReportItems (map weekly_item reports)"
    using assms(1-3) by (simp add: loadWeeklyReports_done_def)
  have m: "el_monthlyReports (loadMonthlyReports_done (Resolved r') s)
             = ReportItems (map monthly_item mreports)"
    using assms(4-6) by (simp add: loadMonthlyReports_done_def)
  have t: "\<forall>p. \<bar>p\<bar> < 10 ^ 21 \<longrightarrow> (\<exists>str. toFixed1 p = Lit str \<and> one_decimal p str)"
    using toFixed1_one_decimal by blast
  from w m t show ?thesis
    by (simp add: weekly_bars monthly_bars bar_150)
qed

lemma example_weekly_bars:
  "map shown (progress_bars (weekly_item example_weekly))
     = [([Lit ''GYM: '', Lit ''150.0'', Lit ''%''], 100),
        ([Lit ''DSA: '', Lit ''33.3'', Lit ''%''], 100 / 3),
        ([Lit ''ML: '', Lit ''0.0'', Lit ''%''], 0),
        ([Lit ''Django: '', Lit ''0.3'', Lit ''%''], 1 / 4),
        ([Lit ''SQL: '', Lit ''100.0'', Lit ''%''], 100),
        ([Lit ''Project: '', Lit ''-0.0'', Lit ''%''], - (1 / 25)),
        ([Lit ''AWS: '', Lit ''99.9'', Lit ''%''], 999 / 10)]"
  by code_simp

lemma example_monthly_bars:
  "map shown (progress_bars (monthly_item example_monthly))
     = [([Lit ''GYM: '', Lit ''150.0'', Lit ''%''], 100),
        ([Lit ''DSA: '', Lit ''20.0'', Lit ''%''], 20),
        ([Lit ''ML: '', Lit ''0.0'', Lit ''%''], 0),
        ([Lit ''Django: '', Lit ''40.0'', Lit ''%''], 40),
        ([Lit ''SQL: '', Lit ''60.0'', Lit ''%''], 60),
        ([Lit ''Project: '', Lit ''80.0'', Lit ''%''], 80),
        ([Lit ''AWS: '', Lit ''100.0'', Lit ''%''], 100)]"
  by code_simp

theorem report_bars_clamped_labels_not_witness:
  "response_ok (Response 200 (Some [example_weekly])) \<and>
   [example_weekly] \<noteq> [] \<and>
   response_ok (Response 200 (Some [example_monthly])) \<and>
   [example_monthly] \<noteq> [] \<and>
   el_weeklyReports (loadWeeklyReports_done (Resolved (Response 200 (Some [example_weekly])))
      example_page) = ReportItems [weekly_item example_weekly] \<and>
   map shown (progress_bars (weekly_item example_weekly))
     = [([Lit ''GYM: '', Lit ''150.0'', Lit ''%''], 100),
        ([Lit ''DSA: '', Lit ''33.3'', Lit ''%''], 100 / 3),
        ([Lit ''ML: '', Lit ''0.0'', Lit ''%''], 0),
        ([Lit ''Django: '', Lit ''0.3'', Lit ''%''], 1 / 4),
        ([Lit ''SQL: '', Lit ''100.0'', Lit ''%''], 100),
        ([Lit ''Project: '', Lit ''-0.0'', Lit ''%''], - (1 / 25)),
        ([Lit ''AWS: '', Lit ''99.9'', Lit ''%''], 999 / 10)] \<and>
   el_monthlyReports (loadMonthlyReports_done (Resolved (Response 200 (Some [example_monthly])))
      example_page) = ReportItems [monthly_item example_monthly] \<and>
   map shown (progress_bars (monthly_item example_monthly))
     = [([Lit ''GYM: '', Lit ''150.0'', Lit ''%''], 100),
        ([Lit ''DSA: '', Lit ''20.0'', Lit ''%''], 20),
        ([Lit ''ML: '', Lit ''0.0'', Lit ''%''], 0),
        ([Lit ''Django: '', Lit ''40.0'', Lit ''%''], 40),
        ([Lit ''SQL: '', Lit ''60.0'', Lit ''%''], 60),
        ([Lit ''Project: '', Lit ''80.0'', Lit ''%''], 80),
        ([Lit ''AWS: '', Lit ''100.0'', Lit ''%''], 100)]"
  using report_bars_clamped_labels_not
      [of "Response 200 (Some [example_weekly])" "[example_weekly]"
          "Response 200 (Some [example_monthly])" "[example_monthly]" example_page]
    example_weekly_bars example_monthly_bars
  by (simp add: response_ok_def)

end
